theory Spec2Isabelle
  imports Main
begin

section \<open>The develop state machine of packages/gatsby/src/state-machines/develop/index.ts\<close>

text \<open>
  The source file is one statechart configuration, \<open>developConfig\<close>, handed to the
  statechart library's \<open>Machine\<close>. The embedding keeps the configuration as data (one
  node per state, with its \<open>on\<close> table, its \<open>entry\<close> actions and its \<open>invoke\<close>) and
  gives the library's transition function for a flat machine such as this one: the
  active state's own transitions are tried first, the machine-level \<open>on\<close> table only
  when the state has no candidate that passes its guard.

  The model is the machine's transition function, from a state and an event to the
  next state with the actions to run. Running the children, and what becomes of a
  child that fails, is the interpreter's business and outside the file: no state of
  the configuration has an \<open>onError\<close>.
\<close>

subsection \<open>Events and the shared context\<close>

text \<open>
  An event is an \<open>AnyEventObject\<close>: a type string and whatever it carries (the
  \<open>payload\<close> of an external event, the \<open>data\<close> of a completion event). The carried
  value is opaque to the machine, hence the type variable.
\<close>

record 'a event_object =
  etype :: string
  payload :: 'a

text \<open>
  \<open>IBuildContext\<close> is declared outside the file (\<open>../../services\<close>). The record has
  the fields the configuration reads (\<open>parentSpan\<close>, \<open>store\<close>, \<open>webhookBody\<close>,
  \<open>program\<close>, \<open>gatsbyNodeGraphQLFunction\<close>, \<open>graphqlRunner\<close>, \<open>websocketManager\<close>,
  \<open>compiler\<close>, \<open>sourceFilesDirty\<close>, \<open>nodeMutationBatch\<close>) and those the
  specification's data model adds (\<open>workerPool\<close>, \<open>devServers\<close>,
  \<open>lastServiceResult\<close>). Every field is optional: \<open>None\<close> is JavaScript's
  \<open>undefined\<close>.
\<close>

record 'a build_context =
  program :: "'a option"
  store :: "'a option"
  workerPool :: "'a option"
  parentSpan :: "'a option"
  gatsbyNodeGraphQLFunction :: "'a option"
  graphqlRunner :: "'a option"
  websocketManager :: "'a option"
  webhookBody :: "'a option"
  nodeMutationBatch :: "'a list option"
  sourceFilesDirty :: "bool option"
  compiler :: "'a option"
  devServers :: "'a option"
  lastServiceResult :: "'a option"

text \<open>
  The scoped contexts handed to the invoked children, one constructor per shape the
  \<open>data\<close> functions of the file build:
  \<^item> \<open>IDataLayerContext parentSpan store webhookBody deferNodeMutation\<close>,
  \<^item> \<open>IQueryRunningContext program store parentSpan gatsbyNodeGraphQLFunction
     graphqlRunner websocketManager\<close>,
  \<^item> \<open>IWaitingContext store nodeMutationBatch runningBatch\<close>,
  \<^item> \<open>NoData\<close> for an invoke without a \<open>data\<close> function.
\<close>

datatype 'a invoke_data =
    NoData
  | IDataLayerContext "'a option" "'a option" "'a option" bool
  | IQueryRunningContext "'a option" "'a option" "'a option" "'a option" "'a option" "'a option"
  | IWaitingContext "'a option" "'a list" "'a list"

subsection \<open>The configuration as data\<close>

datatype state_name =
    initializing
  | initializingData
  | runningPostBootstrap
  | runningQueries
  | recompiling
  | startingDevServers
  | waiting
  | reloadingData
  | recreatingPages

text \<open>
  The actions the configuration names. All but \<open>forwardTo\<close> are looked up by name in
  \<open>buildActions\<close>; \<open>forwardTo id\<close> is the library's action that sends the current
  event on to the invoked child \<open>id\<close>.
\<close>

datatype action =
    addNodeMutation
  | markSourceFilesDirty
  | assignWebhookBody
  | assignStoreAndWorkerPool
  | spawnMutationListener
  | markNodesDirty
  | callApi
  | assignServiceResult
  | clearWebhookBody
  | finishParentSpan
  | setQueryRunningFinished
  | markSourceFilesClean
  | assignServers
  | spawnWebpackListener
  | saveDbState
  | forwardTo string

record 'a transition_config =
  target :: "state_name option"
  actions :: "action list"
  cond :: "('a build_context \<Rightarrow> bool) option"

record 'a invoke_config =
  invoke_id :: string
  src :: string
  data :: "('a build_context \<Rightarrow> 'a invoke_data) option"
  onDone :: "'a transition_config list"

text \<open>
  In an \<open>on\<close> table a key bound to \<open>undefined\<close> is kept as \<open>None\<close>: it is a
  transition of its own (see \<open>toTransitionConfigArray\<close> below), not a missing key.
\<close>

record 'a state_node_config =
  entry :: "action list"
  on :: "(string \<times> 'a transition_config list option) list"
  invoke :: "'a invoke_config"

text \<open>Shorthands for the shapes of transition the file writes.\<close>

definition do_actions :: "action list \<Rightarrow> 'a transition_config" where
  "do_actions as = \<lparr>target = None, actions = as, cond = None\<rparr>"

definition goto :: "state_name \<Rightarrow> action list \<Rightarrow> 'a transition_config" where
  "goto s as = \<lparr>target = Some s, actions = as, cond = None\<rparr>"

definition goto_if ::
  "('a build_context \<Rightarrow> bool) \<Rightarrow> state_name \<Rightarrow> action list \<Rightarrow> 'a transition_config" where
  "goto_if g s as = \<lparr>target = Some s, actions = as, cond = Some g\<rparr>"

text \<open>The machine-level \<open>on\<close> table (lines 17 to 32).\<close>

definition machine_on :: "(string \<times> 'a transition_config list option) list" where
  "machine_on =
     [(''ADD_NODE_MUTATION'',
         Some [\<lparr>target = None, actions = [addNodeMutation], cond = None\<rparr>]),
      (''SOURCE_FILE_CHANGED'',
         Some [\<lparr>target = None, actions = [markSourceFilesDirty], cond = None\<rparr>]),
      (''WEBHOOK_RECEIVED'',
         Some [\<lparr>target = Some reloadingData, actions = [assignWebhookBody], cond = None\<rparr>])]"

text \<open>
  The \<open>data\<close> functions. \<open>nodeMutationBatch = []\<close> in the parameter pattern of the
  waiting state's function is a default for \<open>undefined\<close>.
\<close>

definition data_layer_data :: "'a build_context \<Rightarrow> 'a invoke_data" where
  "data_layer_data c = IDataLayerContext (parentSpan c) (store c) (webhookBody c) True"

definition run_queries_data :: "'a build_context \<Rightarrow> 'a invoke_data" where
  "run_queries_data c =
     IQueryRunningContext (program c) (store c) (parentSpan c)
       (gatsbyNodeGraphQLFunction c) (graphqlRunner c) (websocketManager c)"

definition waiting_data :: "'a build_context \<Rightarrow> 'a invoke_data" where
  "waiting_data c =
     IWaitingContext (store c)
       (case nodeMutationBatch c of None \<Rightarrow> [] | Some b \<Rightarrow> b) []"

definition recreate_pages_data :: "'a build_context \<Rightarrow> 'a invoke_data" where
  "recreate_pages_data c = IDataLayerContext (parentSpan c) (store c) None True"

text \<open>
  The \<open>states\<close> table (lines 33 to 241). An invoke without an \<open>id\<close> takes its \<open>src\<close>
  as its id. The guards are the two arrow functions of the file: \<open>!compiler\<close> and
  \<open>!!sourceFilesDirty\<close>.
\<close>

fun states :: "state_name \<Rightarrow> 'a state_node_config" where
  "states initializing =
     \<lparr>entry = [],
      on = [(''ADD_NODE_MUTATION'', None),
            (''SOURCE_FILE_CHANGED'', None),
            (''WEBHOOK_RECEIVED'', None)],
      invoke = \<lparr>invoke_id = ''initialize'', src = ''initialize'', data = None,
                onDone = [goto initializingData
                            [assignStoreAndWorkerPool, spawnMutationListener]]\<rparr>\<rparr>"
| "states initializingData =
     \<lparr>entry = [],
      on = [(''ADD_NODE_MUTATION'', Some [do_actions [markNodesDirty, callApi]])],
      invoke = \<lparr>invoke_id = ''initializeData'', src = ''initializeData'',
                data = Some data_layer_data,
                onDone = [goto runningPostBootstrap
                            [assignServiceResult, clearWebhookBody, finishParentSpan]]\<rparr>\<rparr>"
| "states runningPostBootstrap =
     \<lparr>entry = [],
      on = [],
      invoke = \<lparr>invoke_id = ''postBootstrap'', src = ''postBootstrap'', data = None,
                onDone = [goto runningQueries []]\<rparr>\<rparr>"
| "states runningQueries =
     \<lparr>entry = [],
      on = [(''SOURCE_FILE_CHANGED'',
               Some [do_actions [forwardTo ''run-queries'', markSourceFilesDirty]])],
      invoke = \<lparr>invoke_id = ''run-queries'', src = ''runQueries'',
                data = Some run_queries_data,
                onDone = [goto_if (\<lambda>c. compiler c = None) startingDevServers
                            [setQueryRunningFinished],
                          goto_if (\<lambda>c. sourceFilesDirty c = Some True) recompiling [],
                          goto waiting []]\<rparr>\<rparr>"
| "states recompiling =
     \<lparr>entry = [],
      on = [],
      invoke = \<lparr>invoke_id = ''recompile'', src = ''recompile'', data = None,
                onDone = [goto waiting [markSourceFilesClean]]\<rparr>\<rparr>"
| "states startingDevServers =
     \<lparr>entry = [],
      on = [],
      invoke = \<lparr>invoke_id = ''startWebpackServer'', src = ''startWebpackServer'',
                data = None,
                onDone = [goto waiting
                            [assignServers, spawnWebpackListener, markSourceFilesClean]]\<rparr>\<rparr>"
| "states waiting =
     \<lparr>entry = [saveDbState],
      on = [(''ADD_NODE_MUTATION'', Some [do_actions [forwardTo ''waiting'']]),
            (''SOURCE_FILE_CHANGED'',
               Some [do_actions [forwardTo ''waiting'', markSourceFilesDirty]]),
            (''EXTRACT_QUERIES_NOW'', Some [goto runningQueries []])],
      invoke = \<lparr>invoke_id = ''waiting'', src = ''waitForMutations'',
                data = Some waiting_data,
                onDone = [goto recreatingPages [assignServiceResult]]\<rparr>\<rparr>"
| "states reloadingData =
     \<lparr>entry = [],
      on = [(''ADD_NODE_MUTATION'', Some [do_actions [markNodesDirty, callApi]]),
            (''SOURCE_FILE_CHANGED'', None)],
      invoke = \<lparr>invoke_id = ''reloadData'', src = ''reloadData'',
                data = Some data_layer_data,
                onDone = [goto runningQueries
                            [assignServiceResult, clearWebhookBody, finishParentSpan]]\<rparr>\<rparr>"
| "states recreatingPages =
     \<lparr>entry = [],
      on = [],
      invoke = \<lparr>invoke_id = ''recreatePages'', src = ''recreatePages'',
                data = Some recreate_pages_data,
                onDone = [goto runningQueries [assignServiceResult]]\<rparr>\<rparr>"

definition initial :: state_name where
  "initial = initializing"

subsection \<open>The actions\<close>

text \<open>
  Modelled from the spec: \<open>buildActions\<close>, imported from \<open>./actions\<close>, is not among
  the source files. Each named action changes the context as the specification's
  state graph and data model say:
  \<^item> \<open>addNodeMutation\<close>: "append to \<open>pendingMutationBatch\<close>" (the field the source
    calls \<open>nodeMutationBatch\<close>);
  \<^item> \<open>markSourceFilesDirty\<close>: "mark \<open>sourceFilesDirty\<close>"; \<open>markSourceFilesClean\<close>:
    "clear \<open>sourceFilesDirty\<close>";
  \<^item> \<open>assignWebhookBody\<close>: "capture payload into \<open>webhookBody\<close>";
    \<open>clearWebhookBody\<close>: "clear \<open>webhookBody\<close>";
  \<^item> \<open>assignServiceResult\<close>: "store the result" (\<open>lastServiceResult\<close>);
  \<^item> \<open>assignStoreAndWorkerPool\<close>: "assign store/worker-pool handles into context";
    \<open>assignServers\<close>: "assign \<open>devServers\<close>/\<open>compiler\<close>". The handles come with
    the completion event and are opaque to the machine: the model puts the value the
    event carries into each of the fields.
  The other named actions (\<open>spawnMutationListener\<close>, \<open>markNodesDirty\<close>, \<open>callApi\<close>,
  \<open>finishParentSpan\<close>, \<open>setQueryRunningFinished\<close>, \<open>spawnWebpackListener\<close>,
  \<open>saveDbState\<close>) act on collaborators (the store, the span, side processes), not on
  the context. \<open>forwardTo\<close> is the library's: it sends the event to a child and
  assigns nothing.

  The data model also says that the batch is "cleared when handed to a child" and
  "drained atomically (as a whole) when a rebuild begins". The state graph names no
  action that does it, so no equation below empties \<open>nodeMutationBatch\<close>, and no
  property is stated about what becomes of the batch when a child completes.
\<close>

fun buildActions :: "action \<Rightarrow> 'a build_context \<Rightarrow> 'a event_object \<Rightarrow> 'a build_context" where
  "buildActions addNodeMutation c e =
     c\<lparr>nodeMutationBatch :=
         Some ((case nodeMutationBatch c of None \<Rightarrow> [] | Some b \<Rightarrow> b) @ [payload e])\<rparr>"
| "buildActions markSourceFilesDirty c e = c\<lparr>sourceFilesDirty := Some True\<rparr>"
| "buildActions markSourceFilesClean c e = c\<lparr>sourceFilesDirty := Some False\<rparr>"
| "buildActions assignWebhookBody c e = c\<lparr>webhookBody := Some (payload e)\<rparr>"
| "buildActions clearWebhookBody c e = c\<lparr>webhookBody := None\<rparr>"
| "buildActions assignServiceResult c e = c\<lparr>lastServiceResult := Some (payload e)\<rparr>"
| "buildActions assignStoreAndWorkerPool c e =
     c\<lparr>store := Some (payload e), workerPool := Some (payload e)\<rparr>"
| "buildActions assignServers c e =
     c\<lparr>compiler := Some (payload e), devServers := Some (payload e)\<rparr>"
| "buildActions spawnMutationListener c e = c"
| "buildActions markNodesDirty c e = c"
| "buildActions callApi c e = c"
| "buildActions finishParentSpan c e = c"
| "buildActions setQueryRunningFinished c e = c"
| "buildActions spawnWebpackListener c e = c"
| "buildActions saveDbState c e = c"
| "buildActions (forwardTo i) c e = c"

subsection \<open>The library's transition function, for a flat machine\<close>

text \<open>
  \<open>toTransitionConfigArray\<close>: a key bound to \<open>undefined\<close> becomes one transition with
  no target, no actions and no guard. It is selected like any other, so the event
  stops at the state and never reaches the machine-level table.
\<close>

fun toTransitionConfigArray :: "'a transition_config list option \<Rightarrow> 'a transition_config list" where
  "toTransitionConfigArray None = [do_actions []]"
| "toTransitionConfigArray (Some ts) = ts"

definition on_candidates ::
  "(string \<times> 'a transition_config list option) list \<Rightarrow> string \<Rightarrow> 'a transition_config list" where
  "on_candidates tbl t =
     (case map_of tbl t of None \<Rightarrow> [] | Some ts \<Rightarrow> toTransitionConfigArray ts)"

text \<open>The completion of the invoked child \<open>i\<close> arrives as the event \<open>done.invoke.i\<close>.\<close>

definition done_invoke :: "string \<Rightarrow> string" where
  "done_invoke i = ''done.invoke.'' @ i"

text \<open>The candidates of a state node for an event type: its \<open>onDone\<close>, then its \<open>on\<close>.\<close>

definition getCandidates :: "'a state_node_config \<Rightarrow> string \<Rightarrow> 'a transition_config list" where
  "getCandidates n t =
     (if t = done_invoke (invoke_id (invoke n)) then onDone (invoke n) else [])
     @ on_candidates (on n) t"

text \<open>The first candidate whose guard passes; a candidate without a guard passes.\<close>

fun select_transition ::
  "'a build_context \<Rightarrow> 'a transition_config list \<Rightarrow> 'a transition_config option" where
  "select_transition c [] = None"
| "select_transition c (t # ts) =
     (case cond t of
        None \<Rightarrow> Some t
      | Some g \<Rightarrow> if g c then Some t else select_transition c ts)"

text \<open>
  What a transition makes the interpreter do, in order: \<open>stop\<close> the child of a state
  that is left, \<open>exec\<close> the actions, \<open>start id src data\<close> the child of a state that is
  entered.
\<close>

datatype 'a action_object =
    stop string
  | exec action
  | start string string "'a invoke_data"

record 'a machine_state =
  state_value :: state_name
  state_context :: "'a build_context"
  state_actions :: "'a action_object list"

definition updateContext ::
  "'a build_context \<Rightarrow> 'a event_object \<Rightarrow> action list \<Rightarrow> 'a build_context" where
  "updateContext c e as = fold (\<lambda>a c'. buildActions a c' e) as c"

definition exit_actions :: "'a state_node_config \<Rightarrow> 'a action_object list" where
  "exit_actions n = [stop (invoke_id (invoke n))]"

text \<open>The \<open>data\<close> function of an entered state is applied to the updated context.\<close>

definition entry_actions ::
  "'a state_node_config \<Rightarrow> 'a build_context \<Rightarrow> 'a action_object list" where
  "entry_actions n c =
     start (invoke_id (invoke n)) (src (invoke n))
       (case data (invoke n) of None \<Rightarrow> NoData | Some f \<Rightarrow> f c)
     # map exec (entry n)"

text \<open>
  A transition without a target runs its actions and leaves the state, and its child,
  as they are. A transition with a target is external: the active state is left and
  the target entered, also when the two are the same state.
\<close>

definition resolveTransition ::
  "'a machine_state \<Rightarrow> 'a event_object \<Rightarrow> 'a transition_config \<Rightarrow> 'a machine_state" where
  "resolveTransition st e t =
     (case target t of
        None \<Rightarrow>
          \<lparr>state_value = state_value st,
           state_context = updateContext (state_context st) e (actions t),
           state_actions = map exec (actions t)\<rparr>
      | Some s' \<Rightarrow>
          (let n' = states s' :: 'a state_node_config;
               c' = updateContext (state_context st) e (actions t @ entry n')
           in \<lparr>state_value = s',
               state_context = c',
               state_actions =
                 exit_actions (states (state_value st)) @ map exec (actions t)
                 @ entry_actions n' c'\<rparr>))"

text \<open>
  The active state is asked first; the machine-level table only when the state selects
  nothing. An event nobody selects a transition for leaves value and context as they
  are and runs no action.
\<close>

definition transition :: "'a machine_state \<Rightarrow> 'a event_object \<Rightarrow> 'a machine_state" where
  "transition st e =
     (case select_transition (state_context st)
             (getCandidates (states (state_value st)) (etype e)) of
        Some t \<Rightarrow> resolveTransition st e t
      | None \<Rightarrow>
          (case select_transition (state_context st) (on_candidates machine_on (etype e)) of
             Some t \<Rightarrow> resolveTransition st e t
           | None \<Rightarrow> st\<lparr>state_actions := []\<rparr>))"

text \<open>
  The machine starts in \<open>initial\<close> with the context it is given; the initial state has
  no entry action, so only its child is started.
\<close>

definition initialState :: "'a build_context \<Rightarrow> 'a machine_state" where
  "initialState c =
     \<lparr>state_value = initial, state_context = c,
      state_actions = entry_actions (states initial) c\<rparr>"

text \<open>Events are processed one at a time, in arrival order.\<close>

definition run :: "'a machine_state \<Rightarrow> 'a event_object list \<Rightarrow> 'a machine_state" where
  "run st es = foldl transition st es"

subsection \<open>Handlers, and a context to run the machine on\<close>

text \<open>
  A table defines a handler for an event type when the type is one of its keys. A
  state defines one through its \<open>on\<close> table or through the \<open>onDone\<close> of its invoke.
\<close>

definition handles ::
  "(string \<times> 'a transition_config list option) list \<Rightarrow> string \<Rightarrow> bool" where
  "handles tbl t = (t \<in> fst ` set tbl)"

definition state_handles :: "'a state_node_config \<Rightarrow> string \<Rightarrow> bool" where
  "state_handles n t = (handles (on n) t \<or> t = done_invoke (invoke_id (invoke n)))"

text \<open>The context with every field absent, for running the machine on concrete events.\<close>

definition fresh_context :: "'a build_context" where
  "fresh_context =
     \<lparr>program = None, store = None, workerPool = None, parentSpan = None,
      gatsbyNodeGraphQLFunction = None, graphqlRunner = None, websocketManager = None,
      webhookBody = None, nodeMutationBatch = None, sourceFilesDirty = None,
      compiler = None, devServers = None, lastServiceResult = None\<rparr>"

definition in_state :: "state_name \<Rightarrow> 'a build_context \<Rightarrow> 'a machine_state" where
  "in_state s c = \<lparr>state_value = s, state_context = c, state_actions = []\<rparr>"

definition event :: "string \<Rightarrow> 'a \<Rightarrow> 'a event_object" where
  "event t p = \<lparr>etype = t, payload = p\<rparr>"

section \<open>Properties\<close>

lemmas config_defs = do_actions_def goto_def goto_if_def machine_on_def
  data_layer_data_def run_queries_data_def waiting_data_def recreate_pages_data_def

lemmas step_defs = transition_def getCandidates_def on_candidates_def done_invoke_def
  resolveTransition_def updateContext_def exit_actions_def entry_actions_def Let_def

lemmas input_defs = in_state_def event_def fresh_context_def

subsection \<open>Completion of Running-Queries\<close>

text \<open>
  C1. When the child of \<open>runningQueries\<close> completes, the guards of \<open>onDone\<close> are tried
  in order: without a \<open>compiler\<close> the machine goes to \<open>startingDevServers\<close>, whatever
  \<open>sourceFilesDirty\<close> is; with a compiler and \<open>sourceFilesDirty\<close> true it goes to
  \<open>recompiling\<close>; otherwise to \<open>waiting\<close>. This holds for every context.
\<close>

theorem running_queries_done_selects_by_guard:
  assumes "state_value st = runningQueries"
    and "etype e = done_invoke ''run-queries''"
  shows "state_value (transition st e) =
     (if compiler (state_context st) = None then startingDevServers
      else if sourceFilesDirty (state_context st) = Some True then recompiling
      else waiting)"
  using assms by (simp add: step_defs config_defs)

theorem running_queries_done_selects_by_guard_witness:
  "state_value (transition
       (in_state runningQueries (fresh_context\<lparr>sourceFilesDirty := Some True\<rparr>))
       (event ''done.invoke.run-queries'' (0::nat))) = startingDevServers
   \<and> state_value (transition
       (in_state runningQueries
          (fresh_context\<lparr>compiler := Some 1, sourceFilesDirty := Some True\<rparr>))
       (event ''done.invoke.run-queries'' (0::nat))) = recompiling
   \<and> state_value (transition
       (in_state runningQueries
          (fresh_context\<lparr>compiler := Some 1, sourceFilesDirty := Some False\<rparr>))
       (event ''done.invoke.run-queries'' (0::nat))) = waiting
   \<and> state_value (transition
       (in_state runningQueries (fresh_context\<lparr>compiler := Some 1\<rparr>))
       (event ''done.invoke.run-queries'' (0::nat))) = waiting"
  using
    running_queries_done_selects_by_guard
      [of "in_state runningQueries (fresh_context\<lparr>sourceFilesDirty := Some True\<rparr>)"
          "event ''done.invoke.run-queries'' (0::nat)"]
    running_queries_done_selects_by_guard
      [of "in_state runningQueries
             (fresh_context\<lparr>compiler := Some 1, sourceFilesDirty := Some True\<rparr>)"
          "event ''done.invoke.run-queries'' (0::nat)"]
    running_queries_done_selects_by_guard
      [of "in_state runningQueries
             (fresh_context\<lparr>compiler := Some 1, sourceFilesDirty := Some False\<rparr>)"
          "event ''done.invoke.run-queries'' (0::nat)"]
    running_queries_done_selects_by_guard
      [of "in_state runningQueries (fresh_context\<lparr>compiler := Some 1\<rparr>)"
          "event ''done.invoke.run-queries'' (0::nat)"]
  by (simp add: input_defs done_invoke_def)

subsection \<open>Webhooks\<close>

text \<open>
  C2, as stated: in every state a \<open>WEBHOOK_RECEIVED\<close> event is captured into
  \<open>webhookBody\<close> and moves the machine to \<open>reloadingData\<close>. It fails in
  \<open>initializing\<close>, whose \<open>on\<close> table binds the event to \<open>undefined\<close>: the machine
  stays where it is and \<open>webhookBody\<close> stays empty.
\<close>

theorem webhook_in_initializing_counterexample:
  "state_value (transition (in_state initializing fresh_context)
       (event ''WEBHOOK_RECEIVED'' (5::nat))) = initializing
   \<and> webhookBody (state_context (transition (in_state initializing fresh_context)
       (event ''WEBHOOK_RECEIVED'' (5::nat)))) = None"
  by (simp add: step_defs config_defs input_defs)

text \<open>
  C2, amended: in every state other than \<open>initializing\<close> a \<open>WEBHOOK_RECEIVED\<close> event
  stops the child of the active state, puts the payload into \<open>webhookBody\<close> and enters
  \<open>reloadingData\<close>, whose child is started with the new \<open>webhookBody\<close>; no guard is
  involved. In \<open>initializing\<close> the event is dropped.
\<close>

theorem webhook_reloads_outside_initializing:
  fixes st :: "'a machine_state"
  assumes "etype e = ''WEBHOOK_RECEIVED''"
  shows "(state_value st \<noteq> initializing \<longrightarrow>
          transition st e =
            \<lparr>state_value = reloadingData,
             state_context = (state_context st)\<lparr>webhookBody := Some (payload e)\<rparr>,
             state_actions =
               [stop (invoke_id (invoke (states (state_value st) :: 'a state_node_config))),
                exec assignWebhookBody,
                start ''reloadData'' ''reloadData''
                  (IDataLayerContext (parentSpan (state_context st))
                     (store (state_context st)) (Some (payload e)) True)]\<rparr>)
       \<and> (state_value st = initializing \<longrightarrow> transition st e = st\<lparr>state_actions := []\<rparr>)"
  using assms by (cases "state_value st") (simp_all add: step_defs config_defs)

theorem webhook_reloads_outside_initializing_witness:
  "transition (in_state runningQueries (fresh_context\<lparr>store := Some 1\<rparr>))
     (event ''WEBHOOK_RECEIVED'' (5::nat)) =
   \<lparr>state_value = reloadingData,
    state_context = fresh_context\<lparr>store := Some 1, webhookBody := Some 5\<rparr>,
    state_actions =
      [stop ''run-queries'', exec assignWebhookBody,
       start ''reloadData'' ''reloadData'' (IDataLayerContext None (Some 1) (Some 5) True)]\<rparr>
   \<and> transition (in_state initializing fresh_context) (event ''WEBHOOK_RECEIVED'' (5::nat))
       = in_state initializing fresh_context"
  using
    webhook_reloads_outside_initializing
      [of "event ''WEBHOOK_RECEIVED'' (5::nat)"
          "in_state runningQueries (fresh_context\<lparr>store := Some 1\<rparr>)"]
    webhook_reloads_outside_initializing
      [of "event ''WEBHOOK_RECEIVED'' (5::nat)" "in_state initializing fresh_context"]
  by (simp add: input_defs)

text \<open>
  C9. A \<open>WEBHOOK_RECEIVED\<close> event that arrives in \<open>reloadingData\<close> re-enters
  \<open>reloadingData\<close>: the state has no entry of its own for the event, so the
  machine-level transition is taken; the running reload child is stopped,
  \<open>webhookBody\<close> is overwritten with the new payload, and a reload child is started
  again with it.
\<close>

theorem webhook_during_reload_restarts_reload:
  fixes st :: "'a machine_state"
  assumes "state_value st = reloadingData"
    and "etype e = ''WEBHOOK_RECEIVED''"
  shows "\<not> handles (on (states reloadingData :: 'a state_node_config)) ''WEBHOOK_RECEIVED''
       \<and> transition st e =
            \<lparr>state_value = reloadingData,
             state_context = (state_context st)\<lparr>webhookBody := Some (payload e)\<rparr>,
             state_actions =
               [stop ''reloadData'',
                exec assignWebhookBody,
                start ''reloadData'' ''reloadData''
                  (IDataLayerContext (parentSpan (state_context st))
                     (store (state_context st)) (Some (payload e)) True)]\<rparr>"
  using assms by (simp add: step_defs config_defs handles_def)

theorem webhook_during_reload_restarts_reload_witness:
  "transition (in_state reloadingData (fresh_context\<lparr>webhookBody := Some 4\<rparr>))
     (event ''WEBHOOK_RECEIVED'' (5::nat)) =
   \<lparr>state_value = reloadingData,
    state_context = fresh_context\<lparr>webhookBody := Some 5\<rparr>,
    state_actions =
      [stop ''reloadData'', exec assignWebhookBody,
       start ''reloadData'' ''reloadData'' (IDataLayerContext None None (Some 5) True)]\<rparr>"
  using
    webhook_during_reload_restarts_reload
      [of "in_state reloadingData (fresh_context\<lparr>webhookBody := Some 4\<rparr>)"
          "event ''WEBHOOK_RECEIVED'' (5::nat)"]
  by (simp add: input_defs)

subsection \<open>Mutations\<close>

text \<open>
  C3, as stated: in every state except \<open>waiting\<close>, \<open>initializingData\<close> and
  \<open>reloadingData\<close> an \<open>ADD_NODE_MUTATION\<close> event runs the queueing action. It fails in
  \<open>initializing\<close>, whose \<open>on\<close> table binds the event to \<open>undefined\<close>: no action runs
  and the batch is left as it was.
\<close>

theorem mutation_in_initializing_counterexample:
  "state_actions (transition (in_state initializing fresh_context)
       (event ''ADD_NODE_MUTATION'' (5::nat))) = []
   \<and> nodeMutationBatch (state_context (transition (in_state initializing fresh_context)
       (event ''ADD_NODE_MUTATION'' (5::nat)))) = None"
  by (simp add: step_defs config_defs input_defs)

text \<open>
  C3, amended: in every state except \<open>initializing\<close>, \<open>waiting\<close>, \<open>initializingData\<close>
  and \<open>reloadingData\<close> an \<open>ADD_NODE_MUTATION\<close> event runs \<open>addNodeMutation\<close> and
  nothing else: the payload is appended to \<open>nodeMutationBatch\<close>, the state does not
  change, and \<open>callApi\<close> (which would apply the mutation to the store at once) is not
  run. In \<open>initializing\<close> the event is dropped: neither queued nor applied.
\<close>

theorem mutation_queued_by_machine_handler:
  assumes "etype e = ''ADD_NODE_MUTATION''"
  shows "(state_value st \<notin> {initializing, waiting, initializingData, reloadingData} \<longrightarrow>
          transition st e =
            \<lparr>state_value = state_value st,
             state_context = (state_context st)
               \<lparr>nodeMutationBatch :=
                  Some ((case nodeMutationBatch (state_context st) of
                           None \<Rightarrow> [] | Some b \<Rightarrow> b) @ [payload e])\<rparr>,
             state_actions = [exec addNodeMutation]\<rparr>
          \<and> exec callApi \<notin> set (state_actions (transition st e)))
       \<and> (state_value st = initializing \<longrightarrow> transition st e = st\<lparr>state_actions := []\<rparr>)"
  using assms by (cases "state_value st") (simp_all add: step_defs config_defs)

theorem mutation_queued_by_machine_handler_witness:
  "transition (in_state recompiling (fresh_context\<lparr>nodeMutationBatch := Some [4]\<rparr>))
     (event ''ADD_NODE_MUTATION'' (5::nat)) =
   \<lparr>state_value = recompiling,
    state_context = fresh_context\<lparr>nodeMutationBatch := Some [4, 5]\<rparr>,
    state_actions = [exec addNodeMutation]\<rparr>
   \<and> transition (in_state initializing fresh_context) (event ''ADD_NODE_MUTATION'' (5::nat))
       = in_state initializing fresh_context"
  using
    mutation_queued_by_machine_handler
      [of "event ''ADD_NODE_MUTATION'' (5::nat)"
          "in_state recompiling (fresh_context\<lparr>nodeMutationBatch := Some [4]\<rparr>)"]
    mutation_queued_by_machine_handler
      [of "event ''ADD_NODE_MUTATION'' (5::nat)" "in_state initializing fresh_context"]
  by (simp add: input_defs)

text \<open>
  C10. In \<open>waiting\<close> an \<open>ADD_NODE_MUTATION\<close> event is only forwarded to the child the
  state invokes (its id is \<open>waiting\<close>): the state's own handler is taken instead of
  the machine-level one, \<open>addNodeMutation\<close> does not run, and the context, with its
  \<open>nodeMutationBatch\<close>, is left as it was.
\<close>

theorem waiting_forwards_mutation:
  fixes st :: "'a machine_state"
  assumes "state_value st = waiting"
    and "etype e = ''ADD_NODE_MUTATION''"
  shows "transition st e = st\<lparr>state_actions := [exec (forwardTo ''waiting'')]\<rparr>
       \<and> invoke_id (invoke (states waiting :: 'a state_node_config)) = ''waiting''
       \<and> exec addNodeMutation \<notin> set (state_actions (transition st e))
       \<and> nodeMutationBatch (state_context (transition st e))
           = nodeMutationBatch (state_context st)"
  using assms by (simp add: step_defs config_defs)

theorem waiting_forwards_mutation_witness:
  "transition (in_state waiting (fresh_context\<lparr>nodeMutationBatch := Some [4]\<rparr>))
     (event ''ADD_NODE_MUTATION'' (5::nat)) =
   \<lparr>state_value = waiting,
    state_context = fresh_context\<lparr>nodeMutationBatch := Some [4]\<rparr>,
    state_actions = [exec (forwardTo ''waiting'')]\<rparr>"
  using
    waiting_forwards_mutation
      [of "in_state waiting (fresh_context\<lparr>nodeMutationBatch := Some [4]\<rparr>)"
          "event ''ADD_NODE_MUTATION'' (5::nat)"]
  by (simp add: input_defs)

subsection \<open>Initializing\<close>

text \<open>
  C4. In \<open>initializing\<close> every \<open>ADD_NODE_MUTATION\<close>, \<open>SOURCE_FILE_CHANGED\<close> and
  \<open>WEBHOOK_RECEIVED\<close> event is dropped: the state stays \<open>initializing\<close>, no action
  runs (so the child is neither stopped nor restarted), and the context is the same
  in every field.
\<close>

theorem initializing_drops_external_events:
  assumes "state_value st = initializing"
    and "etype e \<in> {''ADD_NODE_MUTATION'', ''SOURCE_FILE_CHANGED'', ''WEBHOOK_RECEIVED''}"
  shows "transition st e = st\<lparr>state_actions := []\<rparr>"
  using assms by (auto simp add: step_defs config_defs)

theorem initializing_drops_external_events_witness:
  "transition (in_state initializing (fresh_context\<lparr>program := Some 1\<rparr>))
     (event ''SOURCE_FILE_CHANGED'' (5::nat))
   = in_state initializing (fresh_context\<lparr>program := Some 1\<rparr>)"
  using
    initializing_drops_external_events
      [of "in_state initializing (fresh_context\<lparr>program := Some 1\<rparr>)"
          "event ''SOURCE_FILE_CHANGED'' (5::nat)"]
  by (simp add: input_defs)

subsection \<open>Waiting\<close>

text \<open>
  C5. Every transition that enters \<open>waiting\<close> starts the child \<open>waitForMutations\<close>
  with the store handle, the queued \<open>nodeMutationBatch\<close> (the empty list when the
  field is absent) and an empty \<open>runningBatch\<close>, all read from the context as the
  transition leaves it. When that child completes, \<open>assignServiceResult\<close> runs, the
  result the completion event carries is held by the context (\<open>lastServiceResult\<close>)
  and the machine goes to \<open>recreatingPages\<close>. Nothing is said here about the other
  fields of the context at that transition.
\<close>

theorem waiting_child_spawn_and_completion:
  "(state_value st \<noteq> waiting \<and> state_value (transition st e) = waiting \<longrightarrow>
      start ''waiting'' ''waitForMutations''
        (IWaitingContext (store (state_context (transition st e)))
           (case nodeMutationBatch (state_context (transition st e)) of
              None \<Rightarrow> [] | Some b \<Rightarrow> b)
           [])
      \<in> set (state_actions (transition st e)))
   \<and> (state_value st = waiting \<and> etype e = done_invoke ''waiting'' \<longrightarrow>
      state_value (transition st e) = recreatingPages
      \<and> lastServiceResult (state_context (transition st e)) = Some (payload e)
      \<and> exec assignServiceResult \<in> set (state_actions (transition st e)))"
  by (cases "state_value st") (simp_all add: step_defs config_defs)

theorem waiting_child_spawn_and_completion_witness:
  "state_value (transition
       (in_state recompiling (fresh_context\<lparr>store := Some 1, nodeMutationBatch := Some [4]\<rparr>))
       (event ''done.invoke.recompile'' (0::nat))) = waiting
   \<and> start ''waiting'' ''waitForMutations'' (IWaitingContext (Some 1) [4] [])
       \<in> set (state_actions (transition
           (in_state recompiling
              (fresh_context\<lparr>store := Some 1, nodeMutationBatch := Some [4]\<rparr>))
           (event ''done.invoke.recompile'' (0::nat))))
   \<and> start ''waiting'' ''waitForMutations'' (IWaitingContext None [] [])
       \<in> set (state_actions (transition
           (in_state runningQueries (fresh_context\<lparr>compiler := Some 1\<rparr>))
           (event ''done.invoke.run-queries'' (0::nat))))
   \<and> state_value (transition (in_state waiting fresh_context)
       (event ''done.invoke.waiting'' (7::nat))) = recreatingPages
   \<and> lastServiceResult (state_context (transition (in_state waiting fresh_context)
       (event ''done.invoke.waiting'' (7::nat)))) = Some 7
   \<and> exec assignServiceResult
       \<in> set (state_actions (transition (in_state waiting fresh_context)
           (event ''done.invoke.waiting'' (7::nat))))"
proof -
  have entered:
    "state_value (transition
       (in_state recompiling (fresh_context\<lparr>store := Some 1, nodeMutationBatch := Some [4]\<rparr>))
       (event ''done.invoke.recompile'' (0::nat))) = waiting"
    "state_value (transition
       (in_state runningQueries (fresh_context\<lparr>compiler := Some 1\<rparr>))
       (event ''done.invoke.run-queries'' (0::nat))) = waiting"
    by (simp_all add: step_defs config_defs input_defs)
  have unchanged:
    "state_context (transition
       (in_state recompiling (fresh_context\<lparr>store := Some 1, nodeMutationBatch := Some [4]\<rparr>))
       (event ''done.invoke.recompile'' (0::nat)))
     = fresh_context\<lparr>store := Some 1, nodeMutationBatch := Some [4],
         sourceFilesDirty := Some False\<rparr>"
    "state_context (transition
       (in_state runningQueries (fresh_context\<lparr>compiler := Some 1\<rparr>))
       (event ''done.invoke.run-queries'' (0::nat)))
     = fresh_context\<lparr>compiler := Some 1\<rparr>"
    by (simp_all add: step_defs config_defs input_defs)
  show ?thesis
    using entered unchanged
      waiting_child_spawn_and_completion
        [of "in_state recompiling
               (fresh_context\<lparr>store := Some 1, nodeMutationBatch := Some [4]\<rparr>)"
            "event ''done.invoke.recompile'' (0::nat)"]
      waiting_child_spawn_and_completion
        [of "in_state runningQueries (fresh_context\<lparr>compiler := Some 1\<rparr>)"
            "event ''done.invoke.run-queries'' (0::nat)"]
      waiting_child_spawn_and_completion
        [of "in_state waiting fresh_context" "event ''done.invoke.waiting'' (7::nat)"]
    by (simp add: input_defs done_invoke_def)
qed

text \<open>
  C6. In \<open>waiting\<close> an \<open>EXTRACT_QUERIES_NOW\<close> event takes the machine to
  \<open>runningQueries\<close> at once, in every context: the transition has no guard and reads
  nothing of the batch. The waiting child is stopped, the query-running child started,
  and the context is not changed.
\<close>

theorem extract_queries_now_leaves_waiting:
  assumes "state_value st = waiting"
    and "etype e = ''EXTRACT_QUERIES_NOW''"
  shows "transition st e =
     \<lparr>state_value = runningQueries,
      state_context = state_context st,
      state_actions =
        [stop ''waiting'',
         start ''run-queries'' ''runQueries'' (run_queries_data (state_context st))]\<rparr>"
  using assms by (simp add: step_defs config_defs)

theorem extract_queries_now_leaves_waiting_witness:
  "transition (in_state waiting (fresh_context\<lparr>nodeMutationBatch := Some [4]\<rparr>))
     (event ''EXTRACT_QUERIES_NOW'' (0::nat)) =
   \<lparr>state_value = runningQueries,
    state_context = fresh_context\<lparr>nodeMutationBatch := Some [4]\<rparr>,
    state_actions =
      [stop ''waiting'',
       start ''run-queries'' ''runQueries''
         (IQueryRunningContext None None None None None None)]\<rparr>"
  using
    extract_queries_now_leaves_waiting
      [of "in_state waiting (fresh_context\<lparr>nodeMutationBatch := Some [4]\<rparr>)"
          "event ''EXTRACT_QUERIES_NOW'' (0::nat)"]
  by (simp add: input_defs run_queries_data_def)

subsection \<open>Events without a handler\<close>

lemma on_candidates_unhandled:
  assumes "\<not> handles tbl t"
  shows "on_candidates tbl t = []"
proof -
  from assms have "map_of tbl t = None"
    by (simp add: handles_def map_of_eq_None_iff)
  then show ?thesis by (simp add: on_candidates_def)
qed

text \<open>
  C8. When neither the active state nor the machine-level table defines a handler for
  an event, the transition function returns normally with the state it was given:
  same state value, same context, no action run. An \<open>EXTRACT_QUERIES_NOW\<close> event in
  any state other than \<open>waiting\<close> is such an event.
\<close>

theorem unhandled_event_is_noop:
  fixes st :: "'a machine_state"
  shows "(\<not> state_handles (states (state_value st) :: 'a state_node_config) (etype e)
          \<and> \<not> handles (machine_on :: (string \<times> 'a transition_config list option) list)
                (etype e)
          \<longrightarrow> transition st e = st\<lparr>state_actions := []\<rparr>)
       \<and> (state_value st \<noteq> waiting \<and> etype e = ''EXTRACT_QUERIES_NOW''
          \<longrightarrow> \<not> state_handles (states (state_value st) :: 'a state_node_config) (etype e)
            \<and> \<not> handles (machine_on :: (string \<times> 'a transition_config list option) list)
                  (etype e))"
proof (intro conjI impI)
  assume "\<not> state_handles (states (state_value st) :: 'a state_node_config) (etype e)
          \<and> \<not> handles (machine_on :: (string \<times> 'a transition_config list option) list)
                (etype e)"
  then show "transition st e = st\<lparr>state_actions := []\<rparr>"
    by (simp add: transition_def getCandidates_def state_handles_def
        on_candidates_unhandled)
next
  assume a: "state_value st \<noteq> waiting \<and> etype e = ''EXTRACT_QUERIES_NOW''"
  then show "\<not> state_handles (states (state_value st) :: 'a state_node_config) (etype e)"
    by (cases "state_value st") (simp_all add: state_handles_def handles_def done_invoke_def)
  from a show "\<not> handles (machine_on :: (string \<times> 'a transition_config list option) list)
                  (etype e)"
    by (simp add: handles_def machine_on_def)
qed

theorem unhandled_event_is_noop_witness:
  "transition (in_state runningQueries (fresh_context\<lparr>store := Some 1\<rparr>))
     (event ''EXTRACT_QUERIES_NOW'' (0::nat))
   = in_state runningQueries (fresh_context\<lparr>store := Some 1\<rparr>)
   \<and> transition (in_state recompiling (fresh_context\<lparr>store := Some 1\<rparr>))
     (event ''done.invoke.run-queries'' (0::nat))
   = in_state recompiling (fresh_context\<lparr>store := Some 1\<rparr>)"
proof -
  have "\<not> state_handles (states recompiling :: nat state_node_config)
            ''done.invoke.run-queries''"
    and "\<not> handles (machine_on :: (string \<times> nat transition_config list option) list)
            ''done.invoke.run-queries''"
    by (simp_all add: state_handles_def handles_def done_invoke_def machine_on_def)
  then show ?thesis
    using
      unhandled_event_is_noop
        [of "in_state runningQueries (fresh_context\<lparr>store := Some 1\<rparr>)"
            "event ''EXTRACT_QUERIES_NOW'' (0::nat)"]
      unhandled_event_is_noop
        [of "in_state recompiling (fresh_context\<lparr>store := Some 1\<rparr>)"
            "event ''done.invoke.run-queries'' (0::nat)"]
    by (simp add: input_defs)
qed

subsection \<open>The lifetime of the webhook body\<close>

lemma run_snoc: "run st (es @ [e]) = transition (run st es) e"
  by (simp add: run_def)

text \<open>One step keeps the invariant: a webhook body is held only in \<open>reloadingData\<close>.\<close>

lemma webhook_body_step:
  assumes "webhookBody (state_context st) \<noteq> None \<longrightarrow> state_value st = reloadingData"
  shows "webhookBody (state_context (transition st e)) \<noteq> None
         \<longrightarrow> state_value (transition st e) = reloadingData"
  using assms by (cases "state_value st") (simp_all add: step_defs config_defs)

lemma webhook_body_run:
  assumes "webhookBody c0 = None"
  shows "webhookBody (state_context (run (initialState c0) es)) \<noteq> None
         \<longrightarrow> state_value (run (initialState c0) es) = reloadingData"
proof (induction es rule: rev_induct)
  case Nil
  show ?case using assms by (simp add: run_def initialState_def)
next
  case (snoc e es)
  show ?case unfolding run_snoc using snoc by (rule webhook_body_step)
qed

text \<open>Only a webhook event can put a value into \<open>webhookBody\<close>.\<close>

lemma webhook_body_kept:
  assumes "etype e \<noteq> ''WEBHOOK_RECEIVED''"
    and "webhookBody (state_context (transition st e)) = Some b"
  shows "webhookBody (state_context st) = Some b"
  using assms
  by (cases "state_value st") (simp_all add: step_defs config_defs split: if_splits)

lemma webhook_dropped_context:
  assumes "state_value st = initializing" and "etype e = ''WEBHOOK_RECEIVED''"
  shows "state_context (transition st e) = state_context st"
  using assms by (simp add: step_defs config_defs)

lemma webhook_assigns_body:
  assumes "state_value st \<noteq> initializing" and "etype e = ''WEBHOOK_RECEIVED''"
  shows "webhookBody (state_context (transition st e)) = Some (payload e)"
  using assms by (cases "state_value st") (simp_all add: step_defs config_defs)

text \<open>The completion actions of both data phases clear it.\<close>

lemma data_phase_done_clears_body:
  fixes st :: "'a machine_state"
  assumes "state_value st = reloadingData \<or> state_value st = initializingData"
    and "etype e
         = done_invoke (invoke_id (invoke (states (state_value st) :: 'a state_node_config)))"
  shows "webhookBody (state_context (transition st e)) = None
       \<and> exec clearWebhookBody \<in> set (state_actions (transition st e))"
  using assms by (auto simp add: step_defs config_defs)

text \<open>
  C7. Start the machine on a context whose \<open>webhookBody\<close> is empty and let it process
  any sequence of events. If \<open>webhookBody\<close> holds a value \<open>b\<close> afterwards, then the
  sequence splits around a \<open>WEBHOOK_RECEIVED\<close> event \<open>w\<close> that carried \<open>b\<close> and was
  accepted (the machine was not in \<open>initializing\<close>), and from that event on the
  machine has been in \<open>reloadingData\<close> at every point, with no completion event
  of the reload child among the later events. And in every context, whatever
  \<open>webhookBody\<close> holds: when the child of \<open>reloadingData\<close> or of \<open>initializingData\<close>
  completes, \<open>clearWebhookBody\<close> runs and the field is empty afterwards.
\<close>

theorem webhookBody_only_during_reload:
  fixes c :: "'a build_context" and st :: "'a machine_state"
  shows "(webhookBody c = None
          \<and> webhookBody (state_context (run (initialState c) es)) = Some b \<longrightarrow>
          (\<exists>pre w post.
             es = pre @ w # post \<and> etype w = ''WEBHOOK_RECEIVED'' \<and> payload w = b \<and>
             state_value (run (initialState c) pre) \<noteq> initializing \<and>
             (\<forall>k\<le>length post.
                state_value (run (initialState c) (pre @ w # take k post)) = reloadingData) \<and>
             (\<forall>e\<in>set post.
                 etype e \<noteq> done_invoke
                   (invoke_id (invoke (states reloadingData :: 'a state_node_config))))))
       \<and> ((state_value st = reloadingData \<or> state_value st = initializingData)
          \<and> etype d = done_invoke
               (invoke_id (invoke (states (state_value st) :: 'a state_node_config))) \<longrightarrow>
          webhookBody (state_context (transition st d)) = None
          \<and> exec clearWebhookBody \<in> set (state_actions (transition st d)))"
proof (intro conjI impI)
  assume "(state_value st = reloadingData \<or> state_value st = initializingData)
          \<and> etype d = done_invoke
               (invoke_id (invoke (states (state_value st) :: 'a state_node_config)))"
  then have "webhookBody (state_context (transition st d)) = None
       \<and> exec clearWebhookBody \<in> set (state_actions (transition st d))"
    using data_phase_done_clears_body [of st d] by blast
  then show "webhookBody (state_context (transition st d)) = None"
    and "exec clearWebhookBody \<in> set (state_actions (transition st d))"
    by simp_all
next
  assume both: "webhookBody c = None
          \<and> webhookBody (state_context (run (initialState c) es)) = Some b"
  then have init: "webhookBody c = None" by simp
  from both have "webhookBody (state_context (run (initialState c) es)) = Some b" by simp
  then show "\<exists>pre w post.
             es = pre @ w # post \<and> etype w = ''WEBHOOK_RECEIVED'' \<and> payload w = b \<and>
             state_value (run (initialState c) pre) \<noteq> initializing \<and>
             (\<forall>k\<le>length post.
                state_value (run (initialState c) (pre @ w # take k post)) = reloadingData) \<and>
             (\<forall>e\<in>set post.
                 etype e \<noteq> done_invoke
                   (invoke_id (invoke (states reloadingData :: 'a state_node_config))))"
  proof (induction es rule: rev_induct)
    case Nil
    then show ?case using init by (simp add: run_def initialState_def)
  next
    case (snoc e es)
    let ?st = "run (initialState c) es"
    have after: "webhookBody (state_context (transition ?st e)) = Some b"
      using snoc.prems by (simp add: run_snoc)
    have now: "state_value (run (initialState c) (es @ [e])) = reloadingData"
      using webhook_body_run [OF init, of "es @ [e]"] snoc.prems by simp
    show ?case
    proof (cases "etype e = ''WEBHOOK_RECEIVED''")
      case True
      have accepted: "state_value ?st \<noteq> initializing"
      proof
        assume i: "state_value ?st = initializing"
        from webhook_dropped_context [OF i True] after
        have "webhookBody (state_context ?st) = Some b" by simp
        with webhook_body_run [OF init, of es] have "state_value ?st = reloadingData"
          by simp
        with i show False by simp
      qed
      from webhook_assigns_body [OF accepted True] after have "payload e = b" by simp
      with True accepted now show ?thesis
        by (intro exI [of _ es] exI [of _ e] exI [of _ "[]"]) simp
    next
      case False
      from webhook_body_kept [OF False after]
      have before: "webhookBody (state_context ?st) = Some b" .
      from snoc.IH [OF before] obtain pre w post where
        split: "es = pre @ w # post"
        and w: "etype w = ''WEBHOOK_RECEIVED''" "payload w = b"
        and acc: "state_value (run (initialState c) pre) \<noteq> initializing"
        and during: "\<forall>k\<le>length post.
           state_value (run (initialState c) (pre @ w # take k post)) = reloadingData"
        and nodone: "\<forall>e\<in>set post.
            etype e \<noteq> done_invoke
              (invoke_id (invoke (states reloadingData :: 'a state_node_config)))"
        by blast
      have in_reload: "state_value ?st = reloadingData"
        using webhook_body_run [OF init, of es] before by simp
      have e_not_done: "etype e \<noteq> done_invoke
            (invoke_id (invoke (states reloadingData :: 'a state_node_config)))"
      proof
        assume d: "etype e = done_invoke
                    (invoke_id (invoke (states reloadingData :: 'a state_node_config)))"
        have "webhookBody (state_context (transition ?st e)) = None"
          using data_phase_done_clears_body [of ?st e] in_reload d by simp
        with after show False by simp
      qed
      have during': "\<forall>k\<le>length (post @ [e]).
          state_value (run (initialState c) (pre @ w # take k (post @ [e]))) = reloadingData"
      proof (intro allI impI)
        fix k
        assume k: "k \<le> length (post @ [e])"
        show "state_value (run (initialState c) (pre @ w # take k (post @ [e])))
              = reloadingData"
        proof (cases "k \<le> length post")
          case True
          then show ?thesis using during by simp
        next
          case False
          with k have "take k (post @ [e]) = post @ [e]" by simp
          then show ?thesis using now split by simp
        qed
      qed
      show ?thesis
        using split w acc during' nodone e_not_done
        by (intro exI [of _ pre] exI [of _ w] exI [of _ "post @ [e]"]) simp
    qed
  qed
qed

theorem webhookBody_only_during_reload_witness:
  "webhookBody (fresh_context :: nat build_context) = None
   \<and> webhookBody (state_context (run (initialState fresh_context)
        [event ''WEBHOOK_RECEIVED'' 3, event ''done.invoke.initialize'' 7,
         event ''WEBHOOK_RECEIVED'' 5, event ''ADD_NODE_MUTATION'' (8::nat)])) = Some 5
   \<and> (\<exists>pre w post.
        [event ''WEBHOOK_RECEIVED'' 3, event ''done.invoke.initialize'' 7,
         event ''WEBHOOK_RECEIVED'' 5, event ''ADD_NODE_MUTATION'' (8::nat)]
          = pre @ w # post
        \<and> etype w = ''WEBHOOK_RECEIVED'' \<and> payload w = 5
        \<and> state_value (run (initialState fresh_context) pre) \<noteq> initializing
        \<and> (\<forall>k\<le>length post.
             state_value (run (initialState fresh_context) (pre @ w # take k post))
               = reloadingData)
        \<and> (\<forall>e\<in>set post.
            etype e \<noteq> done_invoke
              (invoke_id (invoke (states reloadingData :: nat state_node_config)))))
   \<and> webhookBody (state_context (transition
        (in_state initializingData (fresh_context\<lparr>webhookBody := Some 4\<rparr>))
        (event ''done.invoke.initializeData'' (9::nat)))) = None
   \<and> exec clearWebhookBody \<in> set (state_actions (transition
        (in_state initializingData (fresh_context\<lparr>webhookBody := Some 4\<rparr>))
        (event ''done.invoke.initializeData'' (9::nat))))
   \<and> webhookBody (state_context (transition
        (in_state reloadingData (fresh_context\<lparr>webhookBody := Some 5\<rparr>))
        (event ''done.invoke.reloadData'' (9::nat)))) = None"
proof -
  let ?es = "[event ''WEBHOOK_RECEIVED'' 3, event ''done.invoke.initialize'' 7,
         event ''WEBHOOK_RECEIVED'' 5, event ''ADD_NODE_MUTATION'' (8::nat)]"
  have h: "webhookBody (fresh_context :: nat build_context) = None"
    by (simp add: fresh_context_def)
  have held: "webhookBody (state_context (run (initialState fresh_context) ?es)) = Some 5"
    by (simp add: run_def initialState_def initial_def step_defs config_defs input_defs)
  show ?thesis
    using h held
      webhookBody_only_during_reload
        [where c = "fresh_context :: nat build_context" and es = ?es and b = 5
           and st = "in_state initializingData (fresh_context\<lparr>webhookBody := Some 4\<rparr>)"
           and d = "event ''done.invoke.initializeData'' (9::nat)"]
      webhookBody_only_during_reload
        [where c = "fresh_context :: nat build_context" and es = ?es and b = 5
           and st = "in_state reloadingData (fresh_context\<lparr>webhookBody := Some 5\<rparr>)"
           and d = "event ''done.invoke.reloadData'' (9::nat)"]
    by (simp add: done_invoke_def event_def in_state_def)
qed

end
